theory Spec2Isabelle
  imports Complex_Main
begin

section \<open>Data model\<close>

text \<open>
  The input snapshot sent over the wire (the object literal of \<^verbatim>\<open>currentInputRef\<close> in
  App.tsx and of \<^verbatim>\<open>buildInput\<close> in simulation.ts). The sequence number is a JavaScript
  number that only ever starts at 0 and is incremented by 1; it is modelled as an unbounded
  natural number.
\<close>

record InputState =
  forward :: bool
  backward :: bool
  left :: bool
  right :: bool
  sprint :: bool
  jump :: bool
  attack :: bool
  castSpell :: bool
  sequence :: nat

record Vector3 =
  vx :: real
  vy :: real
  vz :: real

type_synonym Identity = string
type_synonym DbConnection = nat

text \<open>
  JavaScript strings that can hold arbitrary user text (user names) are lists of UTF-16
  code units; \<open>ascii\<close> embeds a literal.
\<close>

type_synonym jsstring = "nat list"

definition ascii :: "string \<Rightarrow> jsstring" where
  "ascii s = map of_char s"

text \<open>
  Modelled from the spec: the generated type \<^verbatim>\<open>PlayerData\<close> (generated/types) is not
  part of the sources; the record holds the fields the spec lists for a PlayerRecord. The
  identity is kept as its hex string, the key of the player map.
\<close>

record PlayerData =
  p_identity :: Identity
  p_username :: jsstring
  p_characterClass :: string
  p_position :: Vector3
  p_rotation :: Vector3
  p_currentAnimation :: string
  p_health :: nat
  p_mana :: nat

datatype DirectionKey = Forward | Backward | Left | Right

text \<open>
  What a session sends to the remote service, its callback registrations and its promise
  are appended to a log of effects. Timers are kept apart: a session's state holds the
  handles of the interval timers and frame callbacks that are scheduled.
\<close>

datatype effect =
    OnInsert
  | OnUpdate
  | OnDelete
  | Subscribe string
  | RegisterPlayer jsstring string
  | UpdatePlayerInput InputState Vector3 Vector3 string
  | SetTimeout nat
  | ClearTimeout
  | Resolve
  | Reject
  | AddInputListeners
  | AddDelegatedListeners

fun sent_seqs :: "effect list \<Rightarrow> nat list" where
  "sent_seqs [] = []"
| "sent_seqs (UpdatePlayerInput i p r a # es) = sequence i # sent_seqs es"
| "sent_seqs (e # es) = sent_seqs es"

fun sent_inputs :: "effect list \<Rightarrow> InputState list" where
  "sent_inputs [] = []"
| "sent_inputs (UpdatePlayerInput i p r a # es) = i # sent_inputs es"
| "sent_inputs (e # es) = sent_inputs es"

section \<open>Decimal rendering of numbers in template strings\<close>

definition digit :: "nat \<Rightarrow> char" where
  "digit d = ''0123456789'' ! d"

fun decimal :: "nat \<Rightarrow> string" where
  "decimal n = (if n < 10 then [digit n] else decimal (n div 10) @ [digit (n mod 10)])"

declare decimal.simps [simp del]

definition show_int :: "int \<Rightarrow> string" where
  "show_int i = (if i < 0 then CHR ''-'' # decimal (nat (- i)) else decimal (nat i))"

section \<open>The bot driver (simulation.ts)\<close>

definition INPUT_TICK_INTERVAL_MS :: nat where
  "INPUT_TICK_INTERVAL_MS = 50"

definition CHARACTER_CLASSES :: "string list" where
  "CHARACTER_CLASSES = [''Wizard'', ''Paladin'']"

definition DIRECTIONS :: "DirectionKey list" where
  "DIRECTIONS = [Forward, Backward, Left, Right]"

text \<open>
  \<^verbatim>\<open>Math.random()\<close> returns a number \<open>r\<close> with \<open>0 \<le> r < 1\<close>; every draw is a
  parameter \<open>r\<close>, and the theorems that depend on the range assume it. Under that contract
  the index of \<open>randomItem\<close> is below the length of a non-empty array (lemma
  \<open>randomItem_index\<close>); outside of it JavaScript would read \<^verbatim>\<open>undefined\<close>.
\<close>

definition Math_random_ok :: "real \<Rightarrow> bool" where
  "Math_random_ok r = (0 \<le> r \<and> r < 1)"

definition randomItem :: "'a list \<Rightarrow> real \<Rightarrow> 'a" where
  "randomItem arr r = arr ! nat \<lfloor>r * real (length arr)\<rfloor>"

text \<open>
  A bot session: the fields of \<^verbatim>\<open>ClientState\<close>, the variables \<^verbatim>\<open>username\<close> and
  \<^verbatim>\<open>characterClass\<close> of the closure of \<^verbatim>\<open>spawnClient\<close>, and the environment: the
  stream of \<^verbatim>\<open>Math.random()\<close> draws with the position of the next draw, the counter of
  timer handles, the handles of the running interval timers, and the log of effects.
\<close>

record ClientState =
  cs_id :: nat
  cs_conn :: "DbConnection option"
  registered :: bool
  cs_sequence :: nat
  tickHandle :: "nat option"
  direction :: DirectionKey
  dirChangeCountdown :: int
  rotation :: real
  cs_username :: jsstring
  cs_characterClass :: string
  rng :: "nat \<Rightarrow> real"
  rng_pos :: nat
  timers :: nat
  intervals :: "nat list"
  cs_effects :: "effect list"

definition draw :: "ClientState \<Rightarrow> real" where
  "draw s = rng s (rng_pos s)"

definition advance :: "ClientState \<Rightarrow> ClientState" where
  "advance s = s\<lparr>rng_pos := Suc (rng_pos s)\<rparr>"

definition bot_emit :: "effect \<Rightarrow> ClientState \<Rightarrow> ClientState" where
  "bot_emit e s = s\<lparr>cs_effects := cs_effects s @ [e]\<rparr>"

definition buildInput :: "DirectionKey \<Rightarrow> nat \<Rightarrow> real \<Rightarrow> InputState" where
  "buildInput dir seq r =
     \<lparr>forward = (dir = Forward),
      backward = (dir = Backward),
      left = (dir = Left),
      right = (dir = Right),
      sprint = (r < 3 / 10),
      jump = False,
      attack = False,
      castSpell = False,
      sequence = seq\<rparr>"

definition animationFromInput :: "InputState \<Rightarrow> string" where
  "animationFromInput input =
     (if \<not> forward input \<and> \<not> backward input \<and> \<not> left input \<and> \<not> right input then ''idle''
      else let prefix = (if sprint input then ''run'' else ''walk'') in
        if forward input then prefix @ ''-forward''
        else if backward input then prefix @ ''-back''
        else if left input then prefix @ ''-left''
        else prefix @ ''-right'')"

fun rotMap :: "DirectionKey \<Rightarrow> real" where
  "rotMap Forward = 0"
| "rotMap Backward = pi"
| "rotMap Left = pi / 2"
| "rotMap Right = - pi / 2"

text \<open>The direction switch of \<^verbatim>\<open>tickClient\<close> (the body of its second \<^verbatim>\<open>if\<close>).\<close>

definition switchDirection :: "ClientState \<Rightarrow> ClientState" where
  "switchDirection s =
     (let d = randomItem DIRECTIONS (draw s);
          s1 = advance s;
          c = 5 + \<lfloor>draw s1 * 20\<rfloor>;
          s2 = advance s1;
          rot = rotMap d + (draw s2 - 1 / 2) * (1 / 2);
          s3 = advance s2
      in s3\<lparr>direction := d, dirChangeCountdown := c, rotation := rot\<rparr>)"

definition tickClient :: "ClientState \<Rightarrow> ClientState" where
  "tickClient s =
     (if cs_conn s = None \<or> \<not> registered s then s
      else
        let s1 = s\<lparr>dirChangeCountdown := dirChangeCountdown s - 1\<rparr>;
            s2 = (if dirChangeCountdown s1 \<le> 0 then switchDirection s1 else s1);
            s3 = s2\<lparr>cs_sequence := cs_sequence s2 + 1\<rparr>;
            input = buildInput (direction s3) (cs_sequence s3) (draw s3);
            s4 = advance s3;
            clientPos = \<lparr>vx = 0, vy = 0, vz = 0\<rparr>;
            clientRot = \<lparr>vx = 0, vy = rotation s4, vz = 0\<rparr>;
            clientAnimation = animationFromInput input
        in bot_emit (UpdatePlayerInput input clientPos clientRot clientAnimation) s4)"

text \<open>
  \<^verbatim>\<open>spawnClient\<close> up to the call of the connection builder: the closure variables and
  the initial state object. The draws are taken in the order of the source: character
  class, direction, countdown.
\<close>

definition spawnClient :: "nat \<Rightarrow> (nat \<Rightarrow> real) \<Rightarrow> ClientState" where
  "spawnClient clientId g =
     \<lparr>cs_id = clientId,
      cs_conn = None,
      registered = False,
      cs_sequence = 0,
      tickHandle = None,
      direction = randomItem DIRECTIONS (g 1),
      dirChangeCountdown = 3 + \<lfloor>g 2 * 10\<rfloor>,
      rotation = 0,
      cs_username = ascii (''Bot_'' @ decimal clientId),
      cs_characterClass = randomItem CHARACTER_CLASSES (g 0),
      rng = g,
      rng_pos = 3,
      timers = 1,
      intervals = [],
      cs_effects = [SetTimeout 15000]\<rparr>"

text \<open>
  \<^verbatim>\<open>state.tickHandle = setInterval(..., INPUT_TICK_INTERVAL_MS)\<close> starts a timer under a
  fresh handle (an object, always truthy), and \<^verbatim>\<open>clearInterval\<close> stops the timer of a
  handle.
\<close>

definition setInterval :: "ClientState \<Rightarrow> ClientState" where
  "setInterval s =
     (let h = Suc (timers s)
      in s\<lparr>tickHandle := Some h, timers := h, intervals := intervals s @ [h]\<rparr>)"

definition clearInterval :: "nat \<Rightarrow> ClientState \<Rightarrow> ClientState" where
  "clearInterval h s = s\<lparr>intervals := removeAll h (intervals s)\<rparr>"

definition bot_onApplied :: "ClientState \<Rightarrow> ClientState" where
  "bot_onApplied s =
     (let s1 = bot_emit (RegisterPlayer (cs_username s) (cs_characterClass s)) s;
          s2 = s1\<lparr>registered := True\<rparr>;
          s3 = setInterval s2
      in bot_emit Resolve (bot_emit ClearTimeout s3))"

definition bot_onError :: "ClientState \<Rightarrow> ClientState" where
  "bot_onError s = bot_emit Reject (bot_emit ClearTimeout s)"

definition bot_onConnect :: "DbConnection \<Rightarrow> ClientState \<Rightarrow> ClientState" where
  "bot_onConnect connection s =
     (let s1 = s\<lparr>cs_conn := Some connection\<rparr>;
          s2 = bot_emit OnInsert s1
      in bot_emit (Subscribe ''SELECT * FROM player'') s2)"

definition bot_onDisconnect :: "ClientState \<Rightarrow> ClientState" where
  "bot_onDisconnect s =
     (case tickHandle s of
        Some h \<Rightarrow> (clearInterval h s)\<lparr>tickHandle := None\<rparr>
      | None \<Rightarrow> s)"

text \<open>
  The callbacks the event loop can run on a bot session, and a run of them. The tick fires
  only while an interval timer is running.
\<close>

datatype bot_event =
    BConnect DbConnection
  | BApplied
  | BError
  | BTick
  | BDisconnect

fun bot_step :: "ClientState \<Rightarrow> bot_event \<Rightarrow> ClientState" where
  "bot_step s (BConnect c) = bot_onConnect c s"
| "bot_step s BApplied = bot_onApplied s"
| "bot_step s BError = bot_onError s"
| "bot_step s BTick = (if intervals s = [] then s else tickClient s)"
| "bot_step s BDisconnect = bot_onDisconnect s"

definition bot_run :: "bot_event list \<Rightarrow> ClientState \<Rightarrow> ClientState" where
  "bot_run es s = foldl bot_step s es"

section \<open>The interactive client (App.tsx)\<close>

subsection \<open>The player map\<close>

text \<open>
  A JavaScript \<^verbatim>\<open>Map\<close> keeps its entries in insertion order: \<^verbatim>\<open>set\<close> replaces the
  value of a key that is present, in place, and appends a new key at the end.
\<close>

type_synonym player_map = "(string \<times> PlayerData) list"

fun map_set :: "string \<Rightarrow> PlayerData \<Rightarrow> player_map \<Rightarrow> player_map" where
  "map_set k v [] = [(k, v)]"
| "map_set k v ((k', v') # m) = (if k' = k then (k, v) # m else (k', v') # map_set k v m)"

fun map_delete :: "string \<Rightarrow> player_map \<Rightarrow> player_map" where
  "map_delete k [] = []"
| "map_delete k ((k', v') # m) = (if k' = k then m else (k', v') # map_delete k m)"

subsection \<open>Input snapshots and their keys\<close>

datatype key =
  KForward | KBackward | KLeft | KRight | KSprint | KJump | KAttack | KCastSpell | KSequence

datatype jsval = JBool bool | JNum nat

text \<open>The own keys of an InputState object, in the order \<^verbatim>\<open>for ... in\<close> visits them.\<close>

definition input_keys :: "key list" where
  "input_keys =
     [KForward, KBackward, KLeft, KRight, KSprint, KJump, KAttack, KCastSpell, KSequence]"

fun get_field :: "InputState \<Rightarrow> key \<Rightarrow> jsval" where
  "get_field i KForward = JBool (forward i)"
| "get_field i KBackward = JBool (backward i)"
| "get_field i KLeft = JBool (left i)"
| "get_field i KRight = JBool (right i)"
| "get_field i KSprint = JBool (sprint i)"
| "get_field i KJump = JBool (jump i)"
| "get_field i KAttack = JBool (attack i)"
| "get_field i KCastSpell = JBool (castSpell i)"
| "get_field i KSequence = JNum (sequence i)"

fun flag :: "InputState \<Rightarrow> key \<Rightarrow> bool" where
  "flag i KForward = forward i"
| "flag i KBackward = backward i"
| "flag i KLeft = left i"
| "flag i KRight = right i"
| "flag i KSprint = sprint i"
| "flag i KJump = jump i"
| "flag i KAttack = attack i"
| "flag i KCastSpell = castSpell i"
| "flag i KSequence = (sequence i \<noteq> 0)"

fun set_flag :: "key \<Rightarrow> bool \<Rightarrow> InputState \<Rightarrow> InputState" where
  "set_flag KForward b i = i\<lparr>forward := b\<rparr>"
| "set_flag KBackward b i = i\<lparr>backward := b\<rparr>"
| "set_flag KLeft b i = i\<lparr>left := b\<rparr>"
| "set_flag KRight b i = i\<lparr>right := b\<rparr>"
| "set_flag KSprint b i = i\<lparr>sprint := b\<rparr>"
| "set_flag KJump b i = i\<lparr>jump := b\<rparr>"
| "set_flag KAttack b i = i\<lparr>attack := b\<rparr>"
| "set_flag KCastSpell b i = i\<lparr>castSpell := b\<rparr>"
| "set_flag KSequence b i = i"

text \<open>
  \<^verbatim>\<open>Partial<InputState>\<close>: every key may be absent (\<^verbatim>\<open>undefined\<close>). The two values
  the source stores are \<^verbatim>\<open>{}\<close> and a copy \<^verbatim>\<open>{ ...currentInputState }\<close>.
\<close>

type_synonym PartialInputState = "key \<Rightarrow> jsval option"

definition no_snapshot :: PartialInputState where
  "no_snapshot = (\<lambda>k. None)"

definition snapshot :: "InputState \<Rightarrow> PartialInputState" where
  "snapshot i = (\<lambda>k. Some (get_field i k))"

text \<open>
  \<^verbatim>\<open>keyMap\<close>, applied to the \<^verbatim>\<open>code\<close> of a keyboard event. The keys it maps
  to are those of \<^verbatim>\<open>Omit<InputState, 'sequence' | 'castSpell'>\<close>: no key of the
  keyboard sets the sequence number.
\<close>

definition keyMap :: "string \<Rightarrow> key option" where
  "keyMap code =
     (if code = ''KeyW'' then Some KForward
      else if code = ''KeyS'' then Some KBackward
      else if code = ''KeyA'' then Some KLeft
      else if code = ''KeyD'' then Some KRight
      else if code = ''ShiftLeft'' then Some KSprint
      else if code = ''Space'' then Some KJump
      else None)"

subsection \<open>State of the component\<close>

text \<open>
  The module variable \<^verbatim>\<open>conn\<close>, the React state and the refs of \<^verbatim>\<open>App\<close>, the variable
  \<^verbatim>\<open>lastSendTime\<close> of the game-loop effect, and the environment: the value of
  \<^verbatim>\<open>connected\<close> the game-loop effect last ran with, the browser's counter of animation
  frame handles, the handles of the frame callbacks that are scheduled, and the log of
  effects.
\<close>

record AppState =
  conn :: "DbConnection option"
  connected :: bool
  identity :: "Identity option"
  statusMessage :: jsstring
  players :: player_map
  localPlayer :: "PlayerData option"
  showJoinDialog :: bool
  isPointerLocked :: bool
  identityRef :: "Identity option"
  localPlayerRef :: "PlayerData option"
  connectedRef :: bool
  currentInputRef :: InputState
  lastSentInputState :: PartialInputState
  animationFrameIdRef :: "nat option"
  playerRotationRef :: Vector3
  lastSendTime :: real
  effectDeps :: bool
  rafCounter :: nat
  pendingFrames :: "nat list"
  effects :: "effect list"

definition initialApp :: AppState where
  "initialApp =
     \<lparr>conn = None,
      connected = False,
      identity = None,
      statusMessage = ascii ''Connecting...'',
      players = [],
      localPlayer = None,
      showJoinDialog = False,
      isPointerLocked = False,
      identityRef = None,
      localPlayerRef = None,
      connectedRef = False,
      currentInputRef =
        \<lparr>forward = False, backward = False, left = False, right = False,
         sprint = False, jump = False, attack = False, castSpell = False,
         sequence = 0\<rparr>,
      lastSentInputState = no_snapshot,
      animationFrameIdRef = None,
      playerRotationRef = \<lparr>vx = 0, vy = 0, vz = 0\<rparr>,
      lastSendTime = 0,
      effectDeps = False,
      rafCounter = 0,
      pendingFrames = [],
      effects = []\<rparr>"

definition emit :: "effect \<Rightarrow> AppState \<Rightarrow> AppState" where
  "emit e s = s\<lparr>effects := effects s @ [e]\<rparr>"

text \<open>A frame handle is a number; \<^verbatim>\<open>if (animationFrameIdRef.current)\<close> tests that it is
  neither \<^verbatim>\<open>null\<close> nor 0.\<close>

fun truthy :: "nat option \<Rightarrow> bool" where
  "truthy None = False"
| "truthy (Some n) = (n \<noteq> 0)"

subsection \<open>Table callbacks and subscription\<close>

definition registerTableCallbacks :: "AppState \<Rightarrow> AppState" where
  "registerTableCallbacks s =
     (if conn s = None then s else emit OnDelete (emit OnUpdate (emit OnInsert s)))"

definition subscribeToTables :: "AppState \<Rightarrow> AppState" where
  "subscribeToTables s =
     (if conn s = None then s else emit (Subscribe ''SELECT * FROM player'') s)"

definition is_local :: "AppState \<Rightarrow> PlayerData \<Rightarrow> bool" where
  "is_local s player = (case identityRef s of None \<Rightarrow> False | Some i \<Rightarrow> p_identity player = i)"

definition player_onInsert :: "PlayerData \<Rightarrow> AppState \<Rightarrow> AppState" where
  "player_onInsert player s =
     (let s1 = s\<lparr>players := map_set (p_identity player) player (players s)\<rparr>
      in if is_local s1 player
         then s1\<lparr>localPlayer := Some player, localPlayerRef := Some player,
                 statusMessage := ascii ''Registered as '' @ p_username player\<rparr>
         else s1)"

definition player_onUpdate :: "PlayerData \<Rightarrow> PlayerData \<Rightarrow> AppState \<Rightarrow> AppState" where
  "player_onUpdate oldPlayer newPlayer s =
     (let s1 = s\<lparr>players := map_set (p_identity newPlayer) newPlayer (players s)\<rparr>
      in if is_local s1 newPlayer
         then s1\<lparr>localPlayer := Some newPlayer, localPlayerRef := Some newPlayer\<rparr>
         else s1)"

definition player_onDelete :: "PlayerData \<Rightarrow> AppState \<Rightarrow> AppState" where
  "player_onDelete player s =
     (let s1 = s\<lparr>players := map_delete (p_identity player) (players s)\<rparr>
      in if is_local s1 player
         then s1\<lparr>localPlayer := None, localPlayerRef := None,
                 statusMessage := ascii ''Local player deleted!''\<rparr>
         else s1)"

text \<open>
  The loop of \<^verbatim>\<open>onSubscriptionApplied\<close> over \<^verbatim>\<open>conn.db.player.iter()\<close>: the rows are
  a parameter, the map under construction is \<open>currentPlayers\<close>.
\<close>

fun backfill_loop :: "PlayerData list \<Rightarrow> player_map \<Rightarrow> AppState \<Rightarrow> player_map \<times> AppState" where
  "backfill_loop [] currentPlayers s = (currentPlayers, s)"
| "backfill_loop (player # rows) currentPlayers s =
     backfill_loop rows (map_set (p_identity player) player currentPlayers)
       (if is_local s player
        then s\<lparr>localPlayer := Some player, localPlayerRef := Some player\<rparr>
        else s)"

definition onSubscriptionApplied :: "PlayerData list \<Rightarrow> AppState \<Rightarrow> AppState" where
  "onSubscriptionApplied rows s =
     (if length (players s) = 0 \<and> conn s \<noteq> None
      then (case backfill_loop rows [] s of (currentPlayers, s1) \<Rightarrow> s1\<lparr>players := currentPlayers\<rparr>)
      else s)"

definition onSubscriptionError :: "jsstring \<Rightarrow> AppState \<Rightarrow> AppState" where
  "onSubscriptionError message s = s\<lparr>statusMessage := ascii ''Subscription Error: '' @ message\<rparr>"

subsection \<open>Animation label and the send gate\<close>

definition determineAnimation :: "InputState \<Rightarrow> string" where
  "determineAnimation input =
     (if attack input then ''attack1''
      else if castSpell input then ''cast''
      else if jump input then ''jump''
      else
        let isMoving = (forward input \<or> backward input \<or> left input \<or> right input) in
        if \<not> isMoving then ''idle''
        else
          let direction =
                (if forward input \<and> \<not> backward input then ''forward''
                 else if backward input \<and> \<not> forward input then ''back''
                 else if left input \<and> \<not> right input then ''left''
                 else if right input \<and> \<not> left input then ''right''
                 else if forward input \<and> left input then ''left''
                 else if forward input \<and> right input then ''right''
                 else if backward input \<and> left input then ''left''
                 else if backward input \<and> right input then ''right''
                 else ''forward'');
              moveType = (if sprint input then ''run'' else ''walk'')
          in moveType @ ''-'' @ direction)"

text \<open>The change-detection loop of \<^verbatim>\<open>sendInput\<close>, with its \<^verbatim>\<open>break\<close>.\<close>

fun changed_loop :: "key list \<Rightarrow> InputState \<Rightarrow> PartialInputState \<Rightarrow> bool" where
  "changed_loop [] cur lastSent = False"
| "changed_loop (k # ks) cur lastSent =
     (if Some (get_field cur k) \<noteq> lastSent k then True else changed_loop ks cur lastSent)"

definition sendInput :: "InputState \<Rightarrow> AppState \<Rightarrow> AppState" where
  "sendInput currentInputState s =
     (if conn s = None \<or> identityRef s = None \<or> \<not> connectedRef s then s
      else
        let currentPosition =
              (case localPlayerRef s of
                 Some p \<Rightarrow> p_position p
               | None \<Rightarrow> \<lparr>vx = 0, vy = 0, vz = 0\<rparr>);
            currentRotation =
              \<lparr>vx = vx (playerRotationRef s), vy = vy (playerRotationRef s),
               vz = vz (playerRotationRef s)\<rparr>;
            currentAnimation = determineAnimation currentInputState;
            changed = changed_loop input_keys currentInputState (lastSentInputState s)
        in if changed \<or> Some (JNum (sequence currentInputState)) \<noteq> lastSentInputState s KSequence
           then (emit (UpdatePlayerInput currentInputState currentPosition currentRotation
                         currentAnimation) s)
                  \<lparr>lastSentInputState := snapshot currentInputState\<rparr>
           else s)"

subsection \<open>Input handlers\<close>

definition handleKeyDown :: "bool \<Rightarrow> string \<Rightarrow> AppState \<Rightarrow> AppState" where
  "handleKeyDown repeat code s =
     (if repeat then s
      else case keyMap code of
        None \<Rightarrow> s
      | Some action \<Rightarrow>
          if \<not> flag (currentInputRef s) action
          then s\<lparr>currentInputRef := set_flag action True (currentInputRef s)\<rparr>
          else s)"

definition handleKeyUp :: "string \<Rightarrow> AppState \<Rightarrow> AppState" where
  "handleKeyUp code s =
     (case keyMap code of
        None \<Rightarrow> s
      | Some action \<Rightarrow>
          if flag (currentInputRef s) action
          then s\<lparr>currentInputRef := set_flag action False (currentInputRef s)\<rparr>
          else s)"

definition handleMouseDown :: "nat \<Rightarrow> AppState \<Rightarrow> AppState" where
  "handleMouseDown button s =
     (if button = 0 \<and> \<not> attack (currentInputRef s)
      then s\<lparr>currentInputRef := (currentInputRef s)\<lparr>attack := True\<rparr>\<rparr>
      else s)"

definition handleMouseUp :: "nat \<Rightarrow> AppState \<Rightarrow> AppState" where
  "handleMouseUp button s =
     (if button = 0 \<and> attack (currentInputRef s)
      then s\<lparr>currentInputRef := (currentInputRef s)\<lparr>attack := False\<rparr>\<rparr>
      else s)"

text \<open>\<open>locked\<close> is the test \<^verbatim>\<open>document.pointerLockElement === document.body\<close>.\<close>

definition handleMouseMove :: "bool \<Rightarrow> real \<Rightarrow> real \<Rightarrow> AppState \<Rightarrow> AppState" where
  "handleMouseMove locked movementX movementY s =
     (if locked
      then
        let sensitivity = 2 / 1000;
            r = playerRotationRef s;
            r1 = r\<lparr>vy := vy r - movementX * sensitivity\<rparr>;
            r2 = r1\<lparr>vx := max (- pi / (5 / 2)) (min (pi / (5 / 2)) (vx r1 - movementY * sensitivity))\<rparr>
        in s\<lparr>playerRotationRef := r2\<rparr>
      else s)"

definition handlePlayerRotation :: "Vector3 \<Rightarrow> AppState \<Rightarrow> AppState" where
  "handlePlayerRotation rot s = s\<lparr>playerRotationRef := rot\<rparr>"

definition handlePointerLockChange :: "bool \<Rightarrow> AppState \<Rightarrow> AppState" where
  "handlePointerLockChange locked s = s\<lparr>isPointerLocked := locked\<rparr>"

subsection \<open>The game loop and its effect\<close>

definition INPUT_SEND_INTERVAL :: real where
  "INPUT_SEND_INTERVAL = 50"

text \<open>
  \<^verbatim>\<open>cancelAnimationFrame\<close> unschedules the callback of a handle;
  \<^verbatim>\<open>requestAnimationFrame\<close> schedules the game loop under the next handle, a positive
  number.
\<close>

definition cancelAnimationFrame :: "nat \<Rightarrow> AppState \<Rightarrow> AppState" where
  "cancelAnimationFrame h s = s\<lparr>pendingFrames := removeAll h (pendingFrames s)\<rparr>"

text \<open>
  The statement
  \<^verbatim>\<open>if (animationFrameIdRef.current) { cancelAnimationFrame(...); animationFrameIdRef.current = null; }\<close>
  of the game loop and of the cleanup of its effect.
\<close>

definition cancelFrame :: "AppState \<Rightarrow> AppState" where
  "cancelFrame s =
     (case animationFrameIdRef s of
        Some h \<Rightarrow>
          if truthy (Some h) then (cancelAnimationFrame h s)\<lparr>animationFrameIdRef := None\<rparr> else s
      | None \<Rightarrow> s)"

text \<open>\<^verbatim>\<open>animationFrameIdRef.current = requestAnimationFrame(gameLoop)\<close>.\<close>

definition requestFrame :: "AppState \<Rightarrow> AppState" where
  "requestFrame s =
     (let h = Suc (rafCounter s)
      in s\<lparr>rafCounter := h, pendingFrames := pendingFrames s @ [h], animationFrameIdRef := Some h\<rparr>)"

definition gameLoop :: "real \<Rightarrow> AppState \<Rightarrow> AppState" where
  "gameLoop now s =
     (if \<not> connectedRef s \<or> conn s = None \<or> identityRef s = None then cancelFrame s
      else
        let s1 =
              (if now - lastSendTime s \<ge> INPUT_SEND_INTERVAL
               then
                 let sa = s\<lparr>currentInputRef :=
                             (currentInputRef s)\<lparr>sequence := sequence (currentInputRef s) + 1\<rparr>\<rparr>;
                     sb = sendInput (currentInputRef sa) sa
                 in sb\<lparr>lastSendTime := now\<rparr>
               else s)
        in requestFrame s1)"

definition gameLoopEffect :: "AppState \<Rightarrow> AppState" where
  "gameLoopEffect s =
     (let s1 = s\<lparr>lastSendTime := 0\<rparr>
      in if connected s1 \<and> \<not> truthy (animationFrameIdRef s1) then requestFrame s1 else s1)"

definition gameLoopEffectCleanup :: "AppState \<Rightarrow> AppState" where
  "gameLoopEffectCleanup s = cancelFrame s"

text \<open>
  A render commit: React runs the cleanup of the game-loop effect and the effect again
  when its dependency \<^verbatim>\<open>connected\<close> has changed since the effect last ran.
\<close>

definition commit :: "AppState \<Rightarrow> AppState" where
  "commit s =
     (if connected s \<noteq> effectDeps s
      then (gameLoopEffect (gameLoopEffectCleanup s))\<lparr>effectDeps := connected s\<rparr>
      else s)"

subsection \<open>Connection callbacks and joining\<close>

definition onConnect :: "DbConnection \<Rightarrow> Identity \<Rightarrow> AppState \<Rightarrow> AppState" where
  "onConnect connection ident s =
     (let s1 = s\<lparr>conn := Some connection, identityRef := Some ident, connectedRef := True,
                 identity := Some ident, connected := True,
                 statusMessage := ascii (''Connected as '' @ take 8 ident @ ''...'')\<rparr>;
          s2 = registerTableCallbacks s1;
          s3 = subscribeToTables s2;
          s4 = emit AddInputListeners s3;
          s5 = emit AddDelegatedListeners s4
      in s5\<lparr>showJoinDialog := True\<rparr>)"

definition onDisconnect :: "jsstring option \<Rightarrow> AppState \<Rightarrow> AppState" where
  "onDisconnect reason s =
     (let reasonStr = (case reason of Some m \<Rightarrow> m | None \<Rightarrow> ascii ''No reason given'')
      in s\<lparr>statusMessage := ascii ''Disconnected: '' @ reasonStr,
           conn := None, identityRef := None, connectedRef := False, localPlayerRef := None,
           identity := None, connected := False, players := [], localPlayer := None\<rparr>)"

definition handleJoinGame :: "jsstring \<Rightarrow> string \<Rightarrow> AppState \<Rightarrow> AppState" where
  "handleJoinGame username characterClass s =
     (if conn s = None then s
      else (emit (RegisterPlayer username characterClass) s)\<lparr>showJoinDialog := False\<rparr>)"

subsection \<open>The join dialog (JoinGameDialog.tsx)\<close>

text \<open>
  \<^verbatim>\<open>String.prototype.trim\<close> removes the leading and trailing code units that are
  WhiteSpace or LineTerminator of ECMAScript.
\<close>

definition is_space :: "nat \<Rightarrow> bool" where
  "is_space c =
     (c \<in> set [0x9, 0xA, 0xB, 0xC, 0xD, 0x20, 0xA0, 0x1680, 0x2028, 0x2029, 0x202F, 0x205F,
               0x3000, 0xFEFF]
      \<or> (0x2000 \<le> c \<and> c \<le> 0x200A))"

definition trim :: "jsstring \<Rightarrow> jsstring" where
  "trim s = rev (dropWhile is_space (rev (dropWhile is_space s)))"

definition finalUsername :: "jsstring \<Rightarrow> real \<Rightarrow> jsstring" where
  "finalUsername username r =
     (if trim username \<noteq> [] then trim username
      else ascii (''Player'' @ show_int \<lfloor>r * 1000\<rfloor>))"

text \<open>\<open>handleSubmit\<close> yields the two arguments it calls \<^verbatim>\<open>onJoin\<close> with.\<close>

definition handleSubmit :: "jsstring \<Rightarrow> string \<Rightarrow> real \<Rightarrow> jsstring \<times> string" where
  "handleSubmit username characterClass r = (finalUsername username r, characterClass)"

subsection \<open>Runs of the interactive client\<close>

text \<open>
  The callbacks the event loop can run on the component, and a run of them. The browser
  runs the game loop for a scheduled frame callback only, which it takes off its list.
\<close>

datatype app_event =
    AConnect DbConnection Identity
  | ADisconnect "jsstring option"
  | ACommit
  | AFrame real
  | ASubscriptionApplied "PlayerData list"
  | ASubscriptionError jsstring
  | AInsert PlayerData
  | AUpdate PlayerData PlayerData
  | ADelete PlayerData
  | AKeyDown bool string
  | AKeyUp string
  | AMouseDown nat
  | AMouseUp nat
  | AMouseMove bool real real
  | ARotation Vector3
  | APointerLock bool
  | ASubmit jsstring string real

fun app_step :: "AppState \<Rightarrow> app_event \<Rightarrow> AppState" where
  "app_step s (AConnect c i) = onConnect c i s"
| "app_step s (ADisconnect reason) = onDisconnect reason s"
| "app_step s ACommit = commit s"
| "app_step s (AFrame now) =
     (case pendingFrames s of
        [] \<Rightarrow> s
      | h # hs \<Rightarrow> gameLoop now (s\<lparr>pendingFrames := hs\<rparr>))"
| "app_step s (ASubscriptionApplied rows) = onSubscriptionApplied rows s"
| "app_step s (ASubscriptionError m) = onSubscriptionError m s"
| "app_step s (AInsert p) = player_onInsert p s"
| "app_step s (AUpdate p q) = player_onUpdate p q s"
| "app_step s (ADelete p) = player_onDelete p s"
| "app_step s (AKeyDown repeat code) = handleKeyDown repeat code s"
| "app_step s (AKeyUp code) = handleKeyUp code s"
| "app_step s (AMouseDown b) = handleMouseDown b s"
| "app_step s (AMouseUp b) = handleMouseUp b s"
| "app_step s (AMouseMove locked dx dy) = handleMouseMove locked dx dy s"
| "app_step s (ARotation r) = handlePlayerRotation r s"
| "app_step s (APointerLock locked) = handlePointerLockChange locked s"
| "app_step s (ASubmit username characterClass r) =
     (case handleSubmit username characterClass r of (u, c) \<Rightarrow> handleJoinGame u c s)"

definition app_run :: "app_event list \<Rightarrow> AppState \<Rightarrow> AppState" where
  "app_run es s = foldl app_step s es"

section \<open>Invariants of a run\<close>

text \<open>
  The sequence numbers a session has transmitted increase strictly, and none exceeds the
  session's counter.
\<close>

definition bot_inv :: "ClientState \<Rightarrow> bool" where
  "bot_inv s =
     (sorted_wrt (<) (sent_seqs (cs_effects s))
      \<and> list_all (\<lambda>n. n \<le> cs_sequence s) (sent_seqs (cs_effects s)))"

definition app_inv :: "AppState \<Rightarrow> bool" where
  "app_inv s =
     (sorted_wrt (<) (sent_seqs (effects s))
      \<and> list_all (\<lambda>n. n \<le> sequence (currentInputRef s)) (sent_seqs (effects s)))"

section \<open>Properties of sessions and sample states\<close>

subsection \<open>Inputs of the bot driver\<close>

definition one_direction :: "InputState \<Rightarrow> bool" where
  "one_direction i =
     (length (filter id [forward i, backward i, left i, right i]) = 1
      \<and> \<not> jump i \<and> \<not> attack i \<and> \<not> castSpell i)"

subsection \<open>The send gate\<close>

definition session_live :: "AppState \<Rightarrow> bool" where
  "session_live s = (conn s \<noteq> None \<and> identityRef s \<noteq> None \<and> connectedRef s)"






definition idle_input :: "nat \<Rightarrow> InputState" where
  "idle_input n =
     \<lparr>forward = False, backward = False, left = False, right = False,
      sprint = False, jump = False, attack = False, castSpell = False,
      sequence = n\<rparr>"



subsection \<open>Order of the effects of connecting\<close>

definition is_registration :: "effect \<Rightarrow> bool" where
  "is_registration e = (e = OnInsert \<or> e = OnUpdate \<or> e = OnDelete)"

fun is_subscribe :: "effect \<Rightarrow> bool" where
  "is_subscribe (Subscribe q) = True"
| "is_subscribe e = False"

text \<open>
  In a list of effects, callbacks are registered strictly before the subscription is
  issued: a subscription occurs, a registration occurs before the first subscription, and
  none occurs from the first subscription on.
\<close>

definition registration_precedes_subscription :: "effect list \<Rightarrow> bool" where
  "registration_precedes_subscription es =
     (let before = takeWhile (\<lambda>e. \<not> is_subscribe e) es;
          rest = dropWhile (\<lambda>e. \<not> is_subscribe e) es
      in rest \<noteq> [] \<and> list_ex is_registration before \<and> \<not> list_ex is_registration rest)"

definition new_effects :: "effect list \<Rightarrow> effect list \<Rightarrow> effect list" where
  "new_effects old new = drop (length old) new"

subsection \<open>Scheduled frames\<close>

text \<open>
  At most the frame callback of the handle in \<^verbatim>\<open>animationFrameIdRef\<close> is scheduled, the
  handle is positive, and there is a handle only after the game-loop effect has run with
  \<^verbatim>\<open>connected\<close> true.
\<close>

definition frame_inv :: "AppState \<Rightarrow> bool" where
  "frame_inv s =
     (case animationFrameIdRef s of
        None \<Rightarrow> pendingFrames s = []
      | Some h \<Rightarrow> h \<noteq> 0 \<and> effectDeps s \<and> (pendingFrames s = [] \<or> pendingFrames s = [h]))"

subsection \<open>A connected session that has not registered\<close>

fun is_registerPlayer :: "effect \<Rightarrow> bool" where
  "is_registerPlayer (RegisterPlayer u c) = True"
| "is_registerPlayer e = False"

definition unregistered_app :: AppState where
  "unregistered_app = app_run [AConnect 1 ''c0ffee'', ACommit] initialApp"

subsection \<open>Animation labels\<close>

definition moving :: "InputState \<Rightarrow> bool" where
  "moving i = (forward i \<or> backward i \<or> left i \<or> right i)"

definition moveType :: "InputState \<Rightarrow> string" where
  "moveType i = (if sprint i then ''run'' else ''walk'')"

text \<open>
  The direction in the words of the specification: one direction is authoritative, and
  ties are broken in the order forward, backward, left, right.
\<close>

definition spec_direction :: "InputState \<Rightarrow> string" where
  "spec_direction i =
     (if forward i then ''forward''
      else if backward i then ''back''
      else if left i then ''left''
      else ''right'')"

text \<open>
  The direction the interactive client derives: an unopposed forward or backward wins,
  then an unopposed left or right; with all four flags set it is left, and with only an
  opposing pair held it is forward.
\<close>

definition app_direction :: "InputState \<Rightarrow> string" where
  "app_direction i =
     (if forward i \<noteq> backward i then (if forward i then ''forward'' else ''back'')
      else if left i \<noteq> right i then (if left i then ''left'' else ''right'')
      else if forward i \<and> left i then ''left''
      else ''forward'')"

definition forward_backward_left :: InputState where
  "forward_backward_left = (idle_input 1)\<lparr>forward := True, backward := True, left := True\<rparr>"

subsection \<open>A bot whose draws are all 19/20, but for the initial countdown\<close>

definition late_draws :: "nat \<Rightarrow> real" where
  "late_draws n = (if n = 2 then 0 else 19 / 20)"

definition started_bot :: ClientState where
  "started_bot = bot_run [BConnect 1, BApplied] (spawnClient 1 late_draws)"

definition late_bot :: ClientState where
  "late_bot = bot_run [BConnect 1, BApplied, BTick, BTick] (spawnClient 1 late_draws)"

subsection \<open>Sample rows and sessions\<close>

definition sample_player :: "Identity \<Rightarrow> PlayerData" where
  "sample_player i =
     \<lparr>p_identity = i, p_username = ascii ''Bot_1'', p_characterClass = ''Wizard'',
      p_position = \<lparr>vx = 0, vy = 0, vz = 0\<rparr>, p_rotation = \<lparr>vx = 0, vy = 0, vz = 0\<rparr>,
      p_currentAnimation = ''idle'', p_health = 100, p_mana = 100\<rparr>"

definition connected_app :: AppState where
  "connected_app = initialApp\<lparr>conn := Some 1\<rparr>"

text \<open>The interactive client, connected, with its own row inserted and the loop running.\<close>

definition playing_run :: "app_event list" where
  "playing_run = [AConnect 1 ''c0ffee'', ACommit, AInsert (sample_player ''c0ffee''), AFrame 50]"

text \<open>A bot that has connected and registered.\<close>

definition walking_bot :: ClientState where
  "walking_bot = bot_run [BConnect 1, BApplied] (spawnClient 1 (\<lambda>n. 0))"

section \<open>Theorems\<close>

lemma randomItem_index:
  assumes "Math_random_ok r" and "arr \<noteq> []"
  shows "nat \<lfloor>r * real (length arr)\<rfloor> < length arr"
proof -
  from assms have n: "0 < real (length arr)" by simp
  from assms have "r * real (length arr) < real (length arr)"
    using n by (simp add: Math_random_ok_def)
  moreover from assms have "0 \<le> r * real (length arr)"
    by (simp add: Math_random_ok_def)
  ultimately show ?thesis
    by (simp add: floor_less_iff nat_less_iff)
qed

subsection \<open>Sequence numbers\<close>

lemma sent_seqs_append: "sent_seqs (xs @ ys) = sent_seqs xs @ sent_seqs ys"
  by (induction xs rule: sent_seqs.induct) simp_all

lemma switchDirection_keeps: "cs_sequence (switchDirection s) = cs_sequence s" "cs_effects (switchDirection s) = cs_effects s"
  by (simp_all add: switchDirection_def advance_def Let_def)

lemma seqs_send:
  assumes "sorted_wrt (<) xs" and "list_all (\<lambda>n. n \<le> k) xs"
  shows "sorted_wrt (<) (xs @ [Suc k]) \<and> list_all (\<lambda>n. n \<le> Suc k) (xs @ [Suc k])"
  using assms by (auto simp: sorted_wrt_append list_all_iff)

lemma tickClient_inv: "bot_inv s \<Longrightarrow> bot_inv (tickClient s)"
  using seqs_send[of "sent_seqs (cs_effects s)" "cs_sequence s"]
  by (simp add: tickClient_def Let_def bot_emit_def advance_def switchDirection_keeps
      sent_seqs_append buildInput_def bot_inv_def)

lemma bot_step_inv: "bot_inv s \<Longrightarrow> bot_inv (bot_step s e)"
proof (cases e)
  case BTick then show "bot_inv s \<Longrightarrow> ?thesis" by (simp add: tickClient_inv)
next
  case (BConnect c)
  then show "bot_inv s \<Longrightarrow> ?thesis"
    by (simp add: bot_onConnect_def Let_def bot_inv_def bot_emit_def sent_seqs_append)
next
  case BApplied
  then show "bot_inv s \<Longrightarrow> ?thesis"
    by (simp add: bot_onApplied_def setInterval_def Let_def bot_inv_def bot_emit_def
        sent_seqs_append)
next
  case BError
  then show "bot_inv s \<Longrightarrow> ?thesis"
    by (simp add: bot_onError_def Let_def bot_inv_def bot_emit_def sent_seqs_append)
next
  case BDisconnect
  then show "bot_inv s \<Longrightarrow> ?thesis"
    by (simp add: bot_onDisconnect_def clearInterval_def bot_inv_def split: option.splits)
qed

lemma bot_run_inv: "bot_inv s \<Longrightarrow> bot_inv (bot_run es s)"
  unfolding bot_run_def by (induction es arbitrary: s) (simp_all add: bot_step_inv)

lemma spawnClient_inv: "bot_inv (spawnClient clientId g)"
  by (simp add: bot_inv_def spawnClient_def)


lemma set_flag_sequence: "sequence (set_flag k b i) = sequence i"
  by (cases k) simp_all

lemma backfill_loop_keeps:
  "effects (snd (backfill_loop rows m s)) = effects s \<and> currentInputRef (snd (backfill_loop rows m s)) = currentInputRef s"
  by (induction rows m s rule: backfill_loop.induct) simp_all

lemma cancelFrame_keeps:
  "sent_seqs (effects (cancelFrame s)) = sent_seqs (effects s)" "currentInputRef (cancelFrame s) = currentInputRef s"
  by (simp_all add: cancelFrame_def cancelAnimationFrame_def split: option.splits)

lemma requestFrame_keeps:
  "sent_seqs (effects (requestFrame s)) = sent_seqs (effects s)" "currentInputRef (requestFrame s) = currentInputRef s"
  by (simp_all add: requestFrame_def Let_def)

lemma sendInput_seqs:
  "sent_seqs (effects (sendInput cur s)) = sent_seqs (effects s) \<or> sent_seqs (effects (sendInput cur s)) = sent_seqs (effects s) @ [sequence cur]"
  by (simp add: sendInput_def emit_def sent_seqs_append Let_def)

lemma sendInput_cur: "currentInputRef (sendInput cur s) = currentInputRef s"
  by (simp add: sendInput_def emit_def Let_def)

lemma gameLoop_inv: assumes "app_inv s" shows "app_inv (gameLoop now s)"
proof -
  let ?sa = "s\<lparr>currentInputRef := (currentInputRef s)\<lparr>sequence := sequence (currentInputRef s) + 1\<rparr>\<rparr>"
  let ?sb = "sendInput (currentInputRef ?sa) ?sa"
  have sa: "app_inv ?sa" using assms by (auto simp: app_inv_def list_all_iff)
  have sb: "app_inv ?sb"
    using sendInput_seqs[of "currentInputRef ?sa" ?sa] seqs_send[of "sent_seqs (effects s)" "sequence (currentInputRef s)"] assms sa
    by (auto simp: app_inv_def sendInput_cur)
  have sc: "app_inv (?sb\<lparr>lastSendTime := now\<rparr>)" using sb by (simp add: app_inv_def)
  show ?thesis
    using assms sc
    by (simp add: gameLoop_def Let_def app_inv_def cancelFrame_keeps requestFrame_keeps)
qed

lemma commit_inv: "app_inv s \<Longrightarrow> app_inv (commit s)"
  by (simp add: commit_def gameLoopEffect_def gameLoopEffectCleanup_def Let_def app_inv_def cancelFrame_keeps requestFrame_keeps)

lemma app_step_inv: "app_inv s \<Longrightarrow> app_inv (app_step s e)"
proof (cases e)
  case (AFrame now)
  have "app_inv s \<Longrightarrow> app_inv (s\<lparr>pendingFrames := hs\<rparr>)" for hs
    by (simp add: app_inv_def)
  with AFrame show "app_inv s \<Longrightarrow> ?thesis"
    by (simp add: gameLoop_inv split: list.splits)
next
  case ACommit then show "app_inv s \<Longrightarrow> ?thesis" by (simp add: commit_inv)
next
  case (AConnect c i) then show "app_inv s \<Longrightarrow> ?thesis"
    by (simp add: onConnect_def registerTableCallbacks_def subscribeToTables_def emit_def Let_def app_inv_def sent_seqs_append)
next
  case (ADisconnect r) then show "app_inv s \<Longrightarrow> ?thesis"
    by (simp add: onDisconnect_def app_inv_def)
next
  case (ASubscriptionApplied rows) then show "app_inv s \<Longrightarrow> ?thesis"
    using backfill_loop_keeps[of rows "[]" s]
    by (auto simp: onSubscriptionApplied_def app_inv_def split: prod.splits)
next
  case (ASubscriptionError m) then show "app_inv s \<Longrightarrow> ?thesis"
    by (simp add: onSubscriptionError_def app_inv_def)
next
  case (AInsert p) then show "app_inv s \<Longrightarrow> ?thesis"
    by (simp add: player_onInsert_def app_inv_def Let_def)
next
  case (AUpdate p q) then show "app_inv s \<Longrightarrow> ?thesis"
    by (simp add: player_onUpdate_def app_inv_def Let_def)
next
  case (ADelete p) then show "app_inv s \<Longrightarrow> ?thesis"
    by (simp add: player_onDelete_def app_inv_def Let_def)
next
  case (AKeyDown rep code) then show "app_inv s \<Longrightarrow> ?thesis"
    by (simp add: handleKeyDown_def app_inv_def set_flag_sequence split: option.splits)
next
  case (AKeyUp code) then show "app_inv s \<Longrightarrow> ?thesis"
    by (simp add: handleKeyUp_def app_inv_def set_flag_sequence split: option.splits)
next
  case (AMouseDown b) then show "app_inv s \<Longrightarrow> ?thesis"
    by (simp add: handleMouseDown_def app_inv_def)
next
  case (AMouseUp b) then show "app_inv s \<Longrightarrow> ?thesis"
    by (simp add: handleMouseUp_def app_inv_def)
next
  case (AMouseMove l dx dy) then show "app_inv s \<Longrightarrow> ?thesis"
    by (simp add: handleMouseMove_def app_inv_def Let_def)
next
  case (ARotation r) then show "app_inv s \<Longrightarrow> ?thesis"
    by (simp add: handlePlayerRotation_def app_inv_def)
next
  case (APointerLock l) then show "app_inv s \<Longrightarrow> ?thesis"
    by (simp add: handlePointerLockChange_def app_inv_def)
next
  case (ASubmit u c r) then show "app_inv s \<Longrightarrow> ?thesis"
    by (simp add: handleSubmit_def handleJoinGame_def emit_def app_inv_def sent_seqs_append)
qed

lemma app_run_inv: "app_inv s \<Longrightarrow> app_inv (app_run es s)"
  unfolding app_run_def by (induction es arbitrary: s) (simp_all add: app_step_inv)

lemma initialApp_inv: "app_inv initialApp"
  by (simp add: app_inv_def initialApp_def)

text \<open>
  C1. In every run of a bot session from \<open>spawnClient\<close> and in every run of the interactive
  client from its initial state, whatever callbacks the event loop runs and in whatever
  order, the sequence numbers of the ControlStates transmitted through updatePlayerInput
  are strictly increasing: each later transmission carries a greater number than each
  earlier one.
\<close>

theorem sequence_strictly_increasing:
  "sorted_wrt (<) (sent_seqs (cs_effects (bot_run es (spawnClient clientId g))))
   \<and> sorted_wrt (<) (sent_seqs (effects (app_run es' initialApp)))"
  using bot_run_inv [OF spawnClient_inv, of es clientId g]
    app_run_inv [OF initialApp_inv, of es']
  by (simp add: bot_inv_def app_inv_def)

text \<open>
  A bot that ticks twice and an interactive client whose frame callback fires twice both
  transmit the sequence numbers 1 and 2.
\<close>

theorem sequence_strictly_increasing_witness:
  "sent_seqs (cs_effects (bot_run [BConnect 1, BApplied, BTick, BTick] (spawnClient 1 late_draws))) = [1, 2]
   \<and> sorted_wrt (<) (sent_seqs (cs_effects (bot_run [BConnect 1, BApplied, BTick, BTick] (spawnClient 1 late_draws))))
   \<and> sent_seqs (effects (app_run (playing_run @ [AFrame 100]) initialApp)) = [1, 2]
   \<and> sorted_wrt (<) (sent_seqs (effects (app_run (playing_run @ [AFrame 100]) initialApp)))"
proof -
  have bot: "sent_seqs (cs_effects (bot_run [BConnect 1, BApplied, BTick, BTick] (spawnClient 1 late_draws))) = [1, 2]"
    by (simp add: bot_run_def spawnClient_def late_draws_def bot_onConnect_def
        bot_onApplied_def setInterval_def bot_emit_def tickClient_def advance_def Let_def
        buildInput_def)
  have app: "sent_seqs (effects (app_run (playing_run @ [AFrame 100]) initialApp)) = [1, 2]"
    by (simp add: playing_run_def app_run_def initialApp_def onConnect_def
        registerTableCallbacks_def subscribeToTables_def commit_def gameLoopEffect_def
        gameLoopEffectCleanup_def cancelFrame_def requestFrame_def gameLoop_def sendInput_def
        emit_def Let_def INPUT_SEND_INTERVAL_def input_keys_def no_snapshot_def snapshot_def
        player_onInsert_def is_local_def sample_player_def)
  from bot app
    sequence_strictly_increasing [of "[BConnect 1, BApplied, BTick, BTick]" 1 late_draws
      "playing_run @ [AFrame 100]"]
  show ?thesis
    by blast
qed

subsection \<open>Inputs of the bot driver\<close>

lemma sent_inputs_append: "sent_inputs (xs @ ys) = sent_inputs xs @ sent_inputs ys"
  by (induction xs rule: sent_inputs.induct) simp_all

lemma buildInput_one: "one_direction (buildInput dir seq r)"
  by (cases dir) (simp_all add: buildInput_def one_direction_def)

lemma switchDirection_effects: "cs_effects (switchDirection s) = cs_effects s"
  by (simp add: switchDirection_def advance_def Let_def)

lemma tickClient_one:
  "list_all one_direction (sent_inputs (cs_effects s)) \<Longrightarrow>
   list_all one_direction (sent_inputs (cs_effects (tickClient s)))"
  by (simp add: tickClient_def Let_def bot_emit_def advance_def switchDirection_effects
      sent_inputs_append buildInput_one)

lemma bot_step_one:
  "list_all one_direction (sent_inputs (cs_effects s)) \<Longrightarrow>
   list_all one_direction (sent_inputs (cs_effects (bot_step s e)))"
  by (cases e)
    (simp_all add: tickClient_one bot_onConnect_def bot_onApplied_def bot_onError_def
      bot_onDisconnect_def setInterval_def clearInterval_def bot_emit_def Let_def
      sent_inputs_append split: option.splits)

lemma bot_run_one:
  "list_all one_direction (sent_inputs (cs_effects s)) \<Longrightarrow>
   list_all one_direction (sent_inputs (cs_effects (bot_run es s)))"
  unfolding bot_run_def by (induction es arbitrary: s) (simp_all add: bot_step_one)

text \<open>
  C10. Every ControlState the bot driver constructs has exactly one of the four movement
  flags (forward, backward, left, right) set and has jump, attack and castSpell unset:
  this holds of \<open>buildInput\<close> at every direction, sequence number and sprint draw, and so
  of every input a run of a bot session has transmitted.
\<close>

theorem bot_inputs_one_direction:
  "one_direction (buildInput dir seq r)
   \<and> list_all one_direction (sent_inputs (cs_effects (bot_run es (spawnClient clientId g))))"
  using bot_run_one [of "spawnClient clientId g" es]
  by (simp add: buildInput_one spawnClient_def)

subsection \<open>The send gate\<close>


















subsection \<open>Order of callback registration and subscription\<close>

text \<open>
  C3. In both connection-establishment paths, the \<open>onConnect\<close> of the interactive client
  and the \<open>onConnect\<close> of a bot session, from any state, the effects of connecting
  register the table-change callbacks strictly before they issue the subscription query.
\<close>

theorem callbacks_before_subscription:
  "registration_precedes_subscription (new_effects (effects s) (effects (onConnect connection ident s)))
   \<and> new_effects (effects s) (effects (onConnect connection ident s)) =
       [OnInsert, OnUpdate, OnDelete, Subscribe ''SELECT * FROM player'',
        AddInputListeners, AddDelegatedListeners]
   \<and> registration_precedes_subscription
        (new_effects (cs_effects b) (cs_effects (bot_onConnect connection b)))
   \<and> new_effects (cs_effects b) (cs_effects (bot_onConnect connection b)) =
       [OnInsert, Subscribe ''SELECT * FROM player'']"
  by (simp add: registration_precedes_subscription_def new_effects_def onConnect_def
      registerTableCallbacks_def subscribeToTables_def emit_def bot_onConnect_def bot_emit_def
      Let_def is_registration_def)

subsection \<open>Animation labels\<close>

text \<open>
  C7, as the code has it. The bot driver's label names one direction by the priority
  forward, backward, left, right. The interactive client's label is attack1, cast or jump
  when that action flag is set, and otherwise names one direction as well, but not by
  that priority: an unopposed forward or backward wins, then an unopposed left or right;
  with all four flags set the direction is left, and with only an opposing pair held it
  is forward. The two agree exactly when one of forward and backward is set alone, or
  forward is unset and one of left and right is set alone, or forward is set and neither
  left nor right is. Forward or backward with left or right gives forward or backward:
  no label is a composite direction.
\<close>

theorem animation_direction:
  "animationFromInput i = (if moving i then moveType i @ ''-'' @ spec_direction i else ''idle'')
   \<and> determineAnimation i =
       (if attack i then ''attack1'' else if castSpell i then ''cast'' else if jump i then ''jump''
        else if moving i then moveType i @ ''-'' @ app_direction i else ''idle'')
   \<and> app_direction i \<in> {''forward'', ''back'', ''left'', ''right''}
   \<and> spec_direction i \<in> {''forward'', ''back'', ''left'', ''right''}
   \<and> (moving i \<longrightarrow>
        (app_direction i = spec_direction i \<longleftrightarrow>
           forward i \<noteq> backward i \<or> (\<not> forward i \<and> left i \<noteq> right i) \<or> (forward i \<and> \<not> left i \<and> \<not> right i)))"
  by (auto simp: animationFromInput_def determineAnimation_def moving_def moveType_def
      spec_direction_def app_direction_def Let_def)

text \<open>Forward with left is labelled forward by both, the direction of the priority.\<close>

theorem animation_direction_witness:
  "moving ((idle_input 1)\<lparr>forward := True, left := True\<rparr>)
   \<and> app_direction ((idle_input 1)\<lparr>forward := True, left := True\<rparr>) = ''forward''
   \<and> spec_direction ((idle_input 1)\<lparr>forward := True, left := True\<rparr>) = ''forward''
   \<and> determineAnimation ((idle_input 1)\<lparr>forward := True, left := True\<rparr>) = ''walk-forward''"
  using animation_direction [of "(idle_input 1)\<lparr>forward := True, left := True\<rparr>"]
  by (simp add: moving_def idle_input_def moveType_def app_direction_def spec_direction_def)

text \<open>
  C7 as stated fails: with forward, backward and left held, the interactive client's label
  is walk-left, while the priority forward, backward, left, right gives walk-forward, which
  is also the bot driver's label for this input.
\<close>

theorem animation_direction_counterexample:
  "determineAnimation forward_backward_left = ''walk-left''
   \<and> moveType forward_backward_left @ ''-'' @ spec_direction forward_backward_left = ''walk-forward''
   \<and> animationFromInput forward_backward_left = ''walk-forward''"
  by (simp add: determineAnimation_def animationFromInput_def forward_backward_left_def idle_input_def
      moveType_def spec_direction_def Let_def)

subsection \<open>Backfill\<close>

lemma map_set_nonempty: "map_set k v m \<noteq> []"
  by (induction k v m rule: map_set.induct) simp_all

lemma map_set_keys:
  "map fst (map_set k v m) = (if k \<in> set (map fst m) then map fst m else map fst m @ [k])"
  by (induction k v m rule: map_set.induct) auto

lemma map_set_distinct: "distinct (map fst m) \<Longrightarrow> distinct (map fst (map_set k v m))"
  by (simp add: map_set_keys)

lemma backfill_loop_nonempty:
  "rows \<noteq> [] \<or> m \<noteq> [] \<Longrightarrow> fst (backfill_loop rows m s) \<noteq> []"
  by (induction rows m s rule: backfill_loop.induct) (simp_all add: map_set_nonempty)

lemma backfill_loop_distinct:
  "distinct (map fst m) \<Longrightarrow> distinct (map fst (fst (backfill_loop rows m s)))"
  by (induction rows m s rule: backfill_loop.induct) (simp_all add: map_set_distinct)

lemma backfill_loop_conn:
  "conn (snd (backfill_loop rows m s)) = conn s"
  by (induction rows m s rule: backfill_loop.induct) simp_all

lemma onSubscriptionApplied_players:
  "players (onSubscriptionApplied rows s) =
     (if players s = [] \<and> conn s \<noteq> None then fst (backfill_loop rows [] s) else players s)"
  by (auto simp: onSubscriptionApplied_def split: prod.splits)

lemma onSubscriptionApplied_idem:
  "onSubscriptionApplied rows (onSubscriptionApplied rows s) = onSubscriptionApplied rows s"
proof (cases "players s = [] \<and> conn s \<noteq> None")
  case False
  then have "onSubscriptionApplied rows s = s"
    by (cases "players s = []") (simp_all add: onSubscriptionApplied_def)
  then show ?thesis by simp
next
  case True
  show ?thesis
  proof (cases rows)
    case Nil
    with True show ?thesis by (simp add: onSubscriptionApplied_def)
  next
    case (Cons p ps)
    then have "fst (backfill_loop rows [] s) \<noteq> []"
      by (simp add: backfill_loop_nonempty)
    with True have "players (onSubscriptionApplied rows s) \<noteq> []"
      by (simp add: onSubscriptionApplied_players)
    then show ?thesis
      by (simp add: onSubscriptionApplied_def [of rows "onSubscriptionApplied rows s"])
  qed
qed

text \<open>
  C4. Applying the backfill merge of \<open>onSubscriptionApplied\<close> twice with the same rows to a
  store whose player map is empty yields the same store, and so the same map, as applying
  it once. The merge populates the map only when the map is empty: a store whose map holds
  rows, as after an insert notification, is left as it is, nothing overwritten; and the
  keys of the map stay free of duplicates.
\<close>

theorem backfill_idempotent:
  "(players s = [] \<longrightarrow>
      onSubscriptionApplied rows (onSubscriptionApplied rows s) = onSubscriptionApplied rows s)
   \<and> (players s \<noteq> [] \<longrightarrow> onSubscriptionApplied rows s = s)
   \<and> (distinct (map fst (players s)) \<longrightarrow>
        distinct (map fst (players (onSubscriptionApplied rows s))))"
  using backfill_loop_distinct [of "[]" rows s]
  by (simp add: onSubscriptionApplied_idem onSubscriptionApplied_players)
    (simp add: onSubscriptionApplied_def)

text \<open>
  On a connected store with an empty map the rows aa and bb are merged once; after the
  insert notification of cc the same backfill changes nothing.
\<close>

theorem backfill_idempotent_witness:
  "players connected_app = []
   \<and> map fst (players (onSubscriptionApplied [sample_player ''aa'', sample_player ''bb''] connected_app)) = [''aa'', ''bb'']
   \<and> onSubscriptionApplied [sample_player ''aa'', sample_player ''bb'']
        (onSubscriptionApplied [sample_player ''aa'', sample_player ''bb''] connected_app)
      = onSubscriptionApplied [sample_player ''aa'', sample_player ''bb''] connected_app
   \<and> players (player_onInsert (sample_player ''cc'') connected_app) \<noteq> []
   \<and> distinct (map fst (players (player_onInsert (sample_player ''cc'') connected_app)))
   \<and> onSubscriptionApplied [sample_player ''aa'', sample_player ''bb'']
        (player_onInsert (sample_player ''cc'') connected_app)
      = player_onInsert (sample_player ''cc'') connected_app"
  using backfill_idempotent [of connected_app "[sample_player ''aa'', sample_player ''bb'']"]
    backfill_idempotent [of "player_onInsert (sample_player ''cc'') connected_app"
      "[sample_player ''aa'', sample_player ''bb'']"]
  by (simp add: connected_app_def initialApp_def player_onInsert_def sample_player_def is_local_def Let_def onSubscriptionApplied_players)

subsection \<open>Disconnecting\<close>

lemma cancelFrame_inv: "frame_inv s \<Longrightarrow> animationFrameIdRef (cancelFrame s) = None \<and> pendingFrames (cancelFrame s) = []"
  by (auto simp: frame_inv_def cancelFrame_def cancelAnimationFrame_def split: option.splits)

lemma cancelFrame_other:
  "effectDeps (cancelFrame s) = effectDeps s" "connected (cancelFrame s) = connected s"
  "effects (cancelFrame s) = effects s"
  by (simp_all add: cancelFrame_def cancelAnimationFrame_def split: option.splits)

lemma sendInput_frames:
  "animationFrameIdRef (sendInput cur s) = animationFrameIdRef s"
  "pendingFrames (sendInput cur s) = pendingFrames s"
  "effectDeps (sendInput cur s) = effectDeps s"
  "rafCounter (sendInput cur s) = rafCounter s"
  by (simp_all add: sendInput_def emit_def Let_def)

lemma backfill_loop_frames:
  "animationFrameIdRef (snd (backfill_loop rows m s)) = animationFrameIdRef s
   \<and> pendingFrames (snd (backfill_loop rows m s)) = pendingFrames s
   \<and> effectDeps (snd (backfill_loop rows m s)) = effectDeps s"
  by (induction rows m s rule: backfill_loop.induct) simp_all

lemma commit_frame_inv: "frame_inv s \<Longrightarrow> frame_inv (commit s)"
  using cancelFrame_inv [of s]
  by (auto simp: commit_def gameLoopEffect_def gameLoopEffectCleanup_def requestFrame_def Let_def
      frame_inv_def cancelFrame_other split: option.splits)

lemma gameLoop_frame_inv:
  assumes "frame_inv s" and "pendingFrames s = h # hs"
  shows "frame_inv (gameLoop now (s\<lparr>pendingFrames := hs\<rparr>))"
proof -
  from assms have s: "animationFrameIdRef s = Some h" "h \<noteq> 0" "effectDeps s" "hs = []"
    by (auto simp: frame_inv_def split: option.splits)
  then show ?thesis
    by (simp add: gameLoop_def Let_def cancelFrame_def cancelAnimationFrame_def requestFrame_def
        frame_inv_def sendInput_frames)
qed

lemma app_step_frame_inv: "frame_inv s \<Longrightarrow> frame_inv (app_step s e)"
proof (cases e)
  case (AFrame now)
  then show "frame_inv s \<Longrightarrow> ?thesis"
    by (simp add: gameLoop_frame_inv split: list.splits)
next
  case ACommit then show "frame_inv s \<Longrightarrow> ?thesis" by (simp add: commit_frame_inv)
next
  case (AConnect c i) then show "frame_inv s \<Longrightarrow> ?thesis"
    by (simp add: onConnect_def registerTableCallbacks_def subscribeToTables_def emit_def Let_def
        frame_inv_def split: option.splits)
next
  case (ADisconnect r) then show "frame_inv s \<Longrightarrow> ?thesis"
    by (simp add: onDisconnect_def frame_inv_def split: option.splits)
next
  case (ASubscriptionApplied rows) then show "frame_inv s \<Longrightarrow> ?thesis"
    using backfill_loop_frames [of rows "[]" s]
    by (auto simp: onSubscriptionApplied_def frame_inv_def split: prod.splits option.splits)
next
  case (ASubscriptionError m) then show "frame_inv s \<Longrightarrow> ?thesis"
    by (simp add: onSubscriptionError_def frame_inv_def split: option.splits)
next
  case (AInsert p) then show "frame_inv s \<Longrightarrow> ?thesis"
    by (simp add: player_onInsert_def frame_inv_def Let_def split: option.splits)
next
  case (AUpdate p q) then show "frame_inv s \<Longrightarrow> ?thesis"
    by (simp add: player_onUpdate_def frame_inv_def Let_def split: option.splits)
next
  case (ADelete p) then show "frame_inv s \<Longrightarrow> ?thesis"
    by (simp add: player_onDelete_def frame_inv_def Let_def split: option.splits)
next
  case (AKeyDown rep code) then show "frame_inv s \<Longrightarrow> ?thesis"
    by (simp add: handleKeyDown_def frame_inv_def split: option.splits)
next
  case (AKeyUp code) then show "frame_inv s \<Longrightarrow> ?thesis"
    by (simp add: handleKeyUp_def frame_inv_def split: option.splits)
next
  case (AMouseDown b) then show "frame_inv s \<Longrightarrow> ?thesis"
    by (simp add: handleMouseDown_def frame_inv_def split: option.splits)
next
  case (AMouseUp b) then show "frame_inv s \<Longrightarrow> ?thesis"
    by (simp add: handleMouseUp_def frame_inv_def split: option.splits)
next
  case (AMouseMove l dx dy) then show "frame_inv s \<Longrightarrow> ?thesis"
    by (simp add: handleMouseMove_def frame_inv_def Let_def split: option.splits)
next
  case (ARotation r) then show "frame_inv s \<Longrightarrow> ?thesis"
    by (simp add: handlePlayerRotation_def frame_inv_def split: option.splits)
next
  case (APointerLock l) then show "frame_inv s \<Longrightarrow> ?thesis"
    by (simp add: handlePointerLockChange_def frame_inv_def split: option.splits)
next
  case (ASubmit u c r) then show "frame_inv s \<Longrightarrow> ?thesis"
    by (simp add: handleSubmit_def handleJoinGame_def emit_def frame_inv_def split: option.splits)
qed

lemma app_run_frame_inv: "frame_inv s \<Longrightarrow> frame_inv (app_run es s)"
  unfolding app_run_def by (induction es arbitrary: s) (simp_all add: app_step_frame_inv)

lemma initialApp_frame_inv: "frame_inv initialApp"
  by (simp add: frame_inv_def initialApp_def)

lemma onDisconnect_cleared:
  "players (onDisconnect reason s) = [] \<and> localPlayer (onDisconnect reason s) = None
   \<and> localPlayerRef (onDisconnect reason s) = None \<and> identity (onDisconnect reason s) = None
   \<and> identityRef (onDisconnect reason s) = None \<and> \<not> connected (onDisconnect reason s)
   \<and> \<not> connectedRef (onDisconnect reason s) \<and> conn (onDisconnect reason s) = None"
  by (simp add: onDisconnect_def Let_def)

lemma onDisconnect_frames:
  "frame_inv s \<Longrightarrow> frame_inv (onDisconnect reason s)"
  by (simp add: onDisconnect_def frame_inv_def split: option.splits)

lemma commit_after_disconnect:
  assumes "frame_inv d" and "\<not> connected d"
  shows "pendingFrames (commit d) = [] \<and> animationFrameIdRef (commit d) = None"
proof (cases "effectDeps d")
  case True
  with assms cancelFrame_inv [of d] show ?thesis
    by (simp add: commit_def gameLoopEffect_def gameLoopEffectCleanup_def cancelFrame_other)
next
  case False
  with assms show ?thesis
    by (auto simp: commit_def frame_inv_def split: option.splits)
qed

lemma frame_after_disconnect:
  assumes "frame_inv d" and "\<not> connectedRef d"
  shows "pendingFrames (app_step d (AFrame now)) = []
    \<and> effects (app_step d (AFrame now)) = effects d
    \<and> currentInputRef (app_step d (AFrame now)) = currentInputRef d"
  using assms
  by (auto simp: frame_inv_def gameLoop_def cancelFrame_def cancelAnimationFrame_def
      split: option.splits list.splits)

text \<open>
  C5. After \<open>onDisconnect\<close> in any run of the interactive client, the player map is empty,
  the local-player record and the identity are null (state and refs), the connected flag
  is false and the connection is null; the tick timer is cancelled: after the render
  commit that follows, no frame callback is scheduled and the frame handle is null, and a
  frame that fires before the commit leaves none scheduled and transmits nothing. After
  \<open>onDisconnect\<close> of a bot session the tick handle is null and its interval timer is
  stopped. A bot session caches no player state.
\<close>

theorem disconnect_clears:
  "(let d = onDisconnect reason (app_run es initialApp) in
      players d = [] \<and> localPlayer d = None \<and> localPlayerRef d = None
      \<and> identity d = None \<and> identityRef d = None
      \<and> \<not> connected d \<and> \<not> connectedRef d \<and> conn d = None
      \<and> pendingFrames (commit d) = [] \<and> animationFrameIdRef (commit d) = None
      \<and> pendingFrames (app_step d (AFrame now)) = []
      \<and> effects (app_step d (AFrame now)) = effects d)
   \<and> tickHandle (bot_onDisconnect b) = None
   \<and> (\<forall>h. tickHandle b = Some h \<longrightarrow> h \<notin> set (intervals (bot_onDisconnect b)))"
proof -
  let ?d = "onDisconnect reason (app_run es initialApp)"
  have inv: "frame_inv ?d"
    by (simp add: onDisconnect_frames app_run_frame_inv initialApp_frame_inv)
  have bot: "tickHandle (bot_onDisconnect b) = None
    \<and> (\<forall>h. tickHandle b = Some h \<longrightarrow> h \<notin> set (intervals (bot_onDisconnect b)))"
    by (simp add: bot_onDisconnect_def clearInterval_def split: option.splits)
  from inv bot show ?thesis
    using onDisconnect_cleared [of reason "app_run es initialApp"]
      commit_after_disconnect [of ?d] frame_after_disconnect [of ?d now]
    by (simp add: Let_def)
qed

text \<open>
  A playing client has a frame scheduled and a row in its map, a walking bot a running
  interval timer, before they disconnect.
\<close>

theorem disconnect_clears_witness:
  "pendingFrames (app_run playing_run initialApp) = [2]
   \<and> map fst (players (app_run playing_run initialApp)) = [''c0ffee'']
   \<and> players (onDisconnect None (app_run playing_run initialApp)) = []
   \<and> pendingFrames (commit (onDisconnect None (app_run playing_run initialApp))) = []
   \<and> tickHandle walking_bot = Some 2 \<and> intervals walking_bot = [2]
   \<and> 2 \<notin> set (intervals (bot_onDisconnect walking_bot))"
proof -
  have app: "pendingFrames (app_run playing_run initialApp) = [2]
      \<and> map fst (players (app_run playing_run initialApp)) = [''c0ffee'']"
    by (simp add: playing_run_def app_run_def initialApp_def onConnect_def
        registerTableCallbacks_def subscribeToTables_def commit_def gameLoopEffect_def
        gameLoopEffectCleanup_def cancelFrame_def requestFrame_def gameLoop_def sendInput_def
        emit_def Let_def INPUT_SEND_INTERVAL_def input_keys_def no_snapshot_def snapshot_def
        player_onInsert_def is_local_def sample_player_def)
  have bot: "tickHandle walking_bot = Some 2 \<and> intervals walking_bot = [2]"
    by (simp add: walking_bot_def bot_run_def spawnClient_def bot_onConnect_def
        bot_onApplied_def setInterval_def bot_emit_def Let_def)
  from app bot disconnect_clears [of None playing_run 50 walking_bot] show ?thesis
    by (simp add: Let_def)
qed

subsection \<open>Ticks outside a live session\<close>

lemma cancelFrame_touches:
  "cancelFrame s = s\<lparr>animationFrameIdRef := animationFrameIdRef (cancelFrame s),
                      pendingFrames := pendingFrames (cancelFrame s)\<rparr>"
  by (simp add: cancelFrame_def cancelAnimationFrame_def split: option.splits)

text \<open>
  C6, as the code has it. A tick of a bot session whose connection is absent or that is
  not registered is a complete no-op: the state, with sequence number, direction,
  countdown, rotation and transmissions, is unchanged. A tick of the interactive client
  whose connection or identity is absent or whose connected flag is false transmits
  nothing and leaves the input with its sequence number, the last-sent snapshot and the
  rotation unchanged: it changes nothing but its own frame handle, which it cancels and
  nulls. The interactive client holds no registration flag and its tick checks none.
\<close>

theorem tick_noop:
  "(cs_conn b = None \<or> \<not> registered b \<longrightarrow> tickClient b = b)
   \<and> (\<not> session_live s \<longrightarrow>
        gameLoop now s = s\<lparr>animationFrameIdRef := animationFrameIdRef (gameLoop now s),
                            pendingFrames := pendingFrames (gameLoop now s)\<rparr>
        \<and> set (pendingFrames (gameLoop now s)) \<subseteq> set (pendingFrames s)
        \<and> effects (gameLoop now s) = effects s
        \<and> currentInputRef (gameLoop now s) = currentInputRef s
        \<and> lastSentInputState (gameLoop now s) = lastSentInputState s
        \<and> playerRotationRef (gameLoop now s) = playerRotationRef s)"
proof -
  have "\<not> session_live s \<Longrightarrow> gameLoop now s = cancelFrame s"
    by (auto simp: gameLoop_def session_live_def)
  moreover have "set (pendingFrames (cancelFrame s)) \<subseteq> set (pendingFrames s)"
    by (auto simp: cancelFrame_def cancelAnimationFrame_def split: option.splits)
  moreover have "effects (cancelFrame s) = effects s \<and> currentInputRef (cancelFrame s) = currentInputRef s
      \<and> lastSentInputState (cancelFrame s) = lastSentInputState s
      \<and> playerRotationRef (cancelFrame s) = playerRotationRef s"
    by (simp add: cancelFrame_def cancelAnimationFrame_def split: option.splits)
  moreover have "tickClient b = b" if "cs_conn b = None \<or> \<not> registered b"
    using that by (auto simp: tickClient_def)
  ultimately show ?thesis
    using cancelFrame_touches [of s] by auto
qed

text \<open>A bot just spawned has no connection, and the initial client is not live.\<close>

theorem tick_noop_witness:
  "cs_conn (spawnClient 1 (\<lambda>n. 0)) = None
   \<and> tickClient (spawnClient 1 (\<lambda>n. 0)) = spawnClient 1 (\<lambda>n. 0)
   \<and> \<not> session_live initialApp
   \<and> effects (gameLoop 50 initialApp) = effects initialApp
   \<and> currentInputRef (gameLoop 50 initialApp) = currentInputRef initialApp"
proof -
  have a: "cs_conn (spawnClient 1 (\<lambda>n. 0)) = None" by (simp add: spawnClient_def)
  have b: "\<not> session_live initialApp" by (simp add: session_live_def initialApp_def)
  from a b tick_noop [of "spawnClient 1 (\<lambda>n. 0)" initialApp 50] show ?thesis
    by blast
qed

text \<open>
  C6 as stated fails: the interactive client, connected and with its join dialog open, has
  issued no registration and has no local player; the frame callback its game-loop effect
  scheduled fires, increments the sequence number to 1 and transmits it.
\<close>

theorem tick_noop_counterexample:
  "\<not> list_ex is_registerPlayer (effects unregistered_app)
   \<and> localPlayer unregistered_app = None
   \<and> showJoinDialog unregistered_app
   \<and> pendingFrames unregistered_app = [1]
   \<and> sequence (currentInputRef unregistered_app) = 0
   \<and> sent_seqs (effects unregistered_app) = []
   \<and> sequence (currentInputRef (app_step unregistered_app (AFrame 50))) = 1
   \<and> sent_seqs (effects (app_step unregistered_app (AFrame 50))) = [1]"
  by (simp add: unregistered_app_def app_run_def initialApp_def onConnect_def
        registerTableCallbacks_def subscribeToTables_def commit_def gameLoopEffect_def
        gameLoopEffectCleanup_def cancelFrame_def requestFrame_def gameLoop_def sendInput_def
        emit_def Let_def INPUT_SEND_INTERVAL_def input_keys_def no_snapshot_def snapshot_def)

subsection \<open>The join dialog\<close>

lemma floor_draw:
  assumes "Math_random_ok r" and "0 < k"
  shows "0 \<le> \<lfloor>r * real k\<rfloor> \<and> \<lfloor>r * real k\<rfloor> < int k"
proof -
  from assms have "0 \<le> r * real k" by (simp add: Math_random_ok_def)
  moreover from assms have "r * real k < real k" by (simp add: Math_random_ok_def)
  ultimately show ?thesis by (simp add: floor_less_iff)
qed

lemma digit_is_digit: "d < 10 \<Longrightarrow> digit d \<in> set ''0123456789''"
  unfolding digit_def by (rule nth_mem) simp

lemma decimal_digits: "decimal n \<noteq> [] \<and> list_all (\<lambda>c. c \<in> set ''0123456789'') (decimal n)"
proof (induction n rule: decimal.induct)
  case (1 n)
  show ?case
  proof (cases "n < 10")
    case True
    then show ?thesis using digit_is_digit [of n] by (simp add: decimal.simps [of n])
  next
    case False
    with 1 digit_is_digit [of "n mod 10"] show ?thesis by (simp add: decimal.simps [of n])
  qed
qed

text \<open>
  C9. For every submission of the join dialog, whatever the text and the draw of
  \<^verbatim>\<open>Math.random()\<close>, the user name passed to onJoin is non-empty and the character
  class is passed on: when the trimmed text is non-empty it is the user name, and otherwise
  the user name is Player followed by the decimal digits of a number below 1000.
\<close>

theorem join_username_nonempty:
  assumes "Math_random_ok r"
  shows "fst (handleSubmit username characterClass r) \<noteq> []
    \<and> snd (handleSubmit username characterClass r) = characterClass
    \<and> (trim username \<noteq> [] \<longrightarrow> fst (handleSubmit username characterClass r) = trim username)
    \<and> (trim username = [] \<longrightarrow>
          fst (handleSubmit username characterClass r) = ascii (''Player'' @ decimal (nat \<lfloor>r * 1000\<rfloor>))
          \<and> nat \<lfloor>r * 1000\<rfloor> < 1000
          \<and> list_all (\<lambda>c. c \<in> set ''0123456789'') (decimal (nat \<lfloor>r * 1000\<rfloor>)))"
proof -
  from floor_draw [OF assms, of 1000] have f: "0 \<le> \<lfloor>r * 1000\<rfloor>" "\<lfloor>r * 1000\<rfloor> < 1000"
    by simp_all
  then have n: "nat \<lfloor>r * 1000\<rfloor> < 1000"
    by linarith
  have "finalUsername username r =
      (if trim username \<noteq> [] then trim username
       else ascii (''Player'' @ decimal (nat \<lfloor>r * 1000\<rfloor>)))"
    using f(1) by (simp add: finalUsername_def show_int_def)
  with n show ?thesis
    using decimal_digits [of "nat \<lfloor>r * 1000\<rfloor>"]
    by (simp add: handleSubmit_def ascii_def)
qed

text \<open>Blank text with the draw 1/2 joins as Player500, and the text Ann in blanks as Ann.\<close>

theorem join_username_nonempty_witness:
  "Math_random_ok (1 / 2)
   \<and> trim (ascii ''  '') = []
   \<and> fst (handleSubmit (ascii ''  '') ''Wizard'' (1 / 2)) = ascii ''Player500''
   \<and> trim (ascii '' Ann '') = ascii ''Ann''
   \<and> fst (handleSubmit (ascii '' Ann '') ''Wizard'' (1 / 2)) = ascii ''Ann''"
proof -
  have ok: "Math_random_ok (1 / 2)" by (simp add: Math_random_ok_def)
  have t1: "trim (ascii ''  '') = []" by (simp add: trim_def ascii_def is_space_def)
  have t2: "trim (ascii '' Ann '') = ascii ''Ann''" by (simp add: trim_def ascii_def is_space_def)
  have d: "decimal 500 = ''500''" by (simp add: decimal.simps digit_def)
  from join_username_nonempty [OF ok, of "ascii ''  ''" "''Wizard''"] t1 d
  have "fst (handleSubmit (ascii ''  '') ''Wizard'' (1 / 2)) = ascii ''Player500''" by simp
  moreover from join_username_nonempty [OF ok, of "ascii '' Ann ''" "''Wizard''"] t2
  have "fst (handleSubmit (ascii '' Ann '') ''Wizard'' (1 / 2)) = ascii ''Ann''" by (simp add: ascii_def)
  ultimately show ?thesis using ok t1 t2 by blast
qed

subsection \<open>Direction holds of the bot driver\<close>

lemma randomItem_DIRECTIONS:
  assumes "Math_random_ok r"
  shows "randomItem DIRECTIONS r =
    (if r < 1 / 4 then Forward else if r < 1 / 2 then Backward
     else if r < 3 / 4 then Left else Right)"
proof -
  from assms have r: "0 \<le> r" "r < 1" by (simp_all add: Math_random_ok_def)
  consider "r < 1 / 4" | "1 / 4 \<le> r" "r < 1 / 2" | "1 / 2 \<le> r" "r < 3 / 4" | "3 / 4 \<le> r"
    by linarith
  then show ?thesis
  proof cases
    case 1
    with r have "\<lfloor>r * 4\<rfloor> = 0" by (simp add: floor_eq_iff)
    with 1 show ?thesis by (simp add: randomItem_def DIRECTIONS_def)
  next
    case 2
    with r have "\<lfloor>r * 4\<rfloor> = 1" by (simp add: floor_eq_iff)
    with 2 show ?thesis by (simp add: randomItem_def DIRECTIONS_def)
  next
    case 3
    with r have "\<lfloor>r * 4\<rfloor> = 2" by (simp add: floor_eq_iff)
    with 3 show ?thesis by (simp add: randomItem_def DIRECTIONS_def)
  next
    case 4
    with r have "\<lfloor>r * 4\<rfloor> = 3" by (simp add: floor_eq_iff)
    with 4 show ?thesis by (simp add: randomItem_def DIRECTIONS_def)
  qed
qed

lemma jitter_bound:
  assumes "Math_random_ok r"
  shows "\<bar>(r - 1 / 2) * (1 / 2)\<bar> \<le> 1 / 4"
proof -
  from assms have "\<bar>r - 1 / 2\<bar> \<le> 1 / 2"
    unfolding Math_random_ok_def by linarith
  then show ?thesis
    by (simp add: abs_mult)
qed

lemma tickClient_switch:
  assumes "cs_conn s \<noteq> None" and "registered s" and "dirChangeCountdown s \<le> 1"
  shows "direction (tickClient s) = randomItem DIRECTIONS (rng s (rng_pos s))"
    and "dirChangeCountdown (tickClient s) = 5 + \<lfloor>rng s (Suc (rng_pos s)) * 20\<rfloor>"
    and "rotation (tickClient s) =
      rotMap (randomItem DIRECTIONS (rng s (rng_pos s)))
        + (rng s (Suc (Suc (rng_pos s))) - 1 / 2) * (1 / 2)"
proof -
  from assms(1) obtain c where "cs_conn s = Some c"
    by auto
  with assms(2,3) show "direction (tickClient s) = randomItem DIRECTIONS (rng s (rng_pos s))"
    and "dirChangeCountdown (tickClient s) = 5 + \<lfloor>rng s (Suc (rng_pos s)) * 20\<rfloor>"
    and "rotation (tickClient s) =
      rotMap (randomItem DIRECTIONS (rng s (rng_pos s)))
        + (rng s (Suc (Suc (rng_pos s))) - 1 / 2) * (1 / 2)"
    by (simp_all add: tickClient_def switchDirection_def Let_def draw_def advance_def bot_emit_def)
qed

lemma tickClient_hold:
  assumes "cs_conn s \<noteq> None" and "registered s" and "1 < dirChangeCountdown s"
  shows "direction (tickClient s) = direction s"
    and "dirChangeCountdown (tickClient s) = dirChangeCountdown s - 1"
    and "rotation (tickClient s) = rotation s"
proof -
  from assms(1) obtain c where "cs_conn s = Some c"
    by auto
  with assms(2,3) show "direction (tickClient s) = direction s"
    and "dirChangeCountdown (tickClient s) = dirChangeCountdown s - 1"
    and "rotation (tickClient s) = rotation s"
    by (simp_all add: tickClient_def Let_def advance_def bot_emit_def)
qed

text \<open>
  C8, as the code has it. With every draw of \<^verbatim>\<open>Math.random()\<close> in its range: the initial
  countdown of a bot lies between 3 and 12 and its initial direction is one of the four;
  on a tick of a live bot whose countdown runs out (it is at most 1 before the tick), the
  new countdown lies between 5 and 24, the new direction is forward, backward, left or
  right as the draw falls in the first, second, third or fourth quarter of the unit
  interval (so uniformly for a uniform draw), and the rotation differs from the facing
  of the new direction by at most 0.25 rad; on every other tick of a live bot the
  countdown drops by one and direction and rotation are kept.
\<close>

theorem hold_durations:
  assumes "Math_random_ok (g 1)" and "Math_random_ok (g 2)"
    and "cs_conn s \<noteq> None" and "registered s"
    and "Math_random_ok (rng s (rng_pos s))"
    and "Math_random_ok (rng s (Suc (rng_pos s)))"
    and "Math_random_ok (rng s (Suc (Suc (rng_pos s))))"
  shows "3 \<le> dirChangeCountdown (spawnClient clientId g)
    \<and> dirChangeCountdown (spawnClient clientId g) \<le> 12
    \<and> direction (spawnClient clientId g) \<in> set DIRECTIONS
    \<and> (dirChangeCountdown s \<le> 1 \<longrightarrow>
          5 \<le> dirChangeCountdown (tickClient s) \<and> dirChangeCountdown (tickClient s) \<le> 24
          \<and> direction (tickClient s) \<in> set DIRECTIONS
          \<and> (direction (tickClient s) = Forward \<longleftrightarrow> rng s (rng_pos s) < 1 / 4)
          \<and> (direction (tickClient s) = Backward \<longleftrightarrow>
               1 / 4 \<le> rng s (rng_pos s) \<and> rng s (rng_pos s) < 1 / 2)
          \<and> (direction (tickClient s) = Left \<longleftrightarrow>
               1 / 2 \<le> rng s (rng_pos s) \<and> rng s (rng_pos s) < 3 / 4)
          \<and> (direction (tickClient s) = Right \<longleftrightarrow> 3 / 4 \<le> rng s (rng_pos s))
          \<and> \<bar>rotation (tickClient s) - rotMap (direction (tickClient s))\<bar> \<le> 1 / 4)
    \<and> (1 < dirChangeCountdown s \<longrightarrow>
          dirChangeCountdown (tickClient s) = dirChangeCountdown s - 1
          \<and> direction (tickClient s) = direction s
          \<and> rotation (tickClient s) = rotation s)"
proof -
  have spawn: "3 \<le> dirChangeCountdown (spawnClient clientId g)
      \<and> dirChangeCountdown (spawnClient clientId g) \<le> 12"
    using floor_draw [OF assms(2), of 10] by (simp add: spawnClient_def)
  have dir0: "direction (spawnClient clientId g) \<in> set DIRECTIONS"
    using randomItem_DIRECTIONS [OF assms(1)] by (simp add: spawnClient_def DIRECTIONS_def)
  have switch: "5 \<le> dirChangeCountdown (tickClient s) \<and> dirChangeCountdown (tickClient s) \<le> 24
          \<and> direction (tickClient s) \<in> set DIRECTIONS
          \<and> (direction (tickClient s) = Forward \<longleftrightarrow> rng s (rng_pos s) < 1 / 4)
          \<and> (direction (tickClient s) = Backward \<longleftrightarrow>
               1 / 4 \<le> rng s (rng_pos s) \<and> rng s (rng_pos s) < 1 / 2)
          \<and> (direction (tickClient s) = Left \<longleftrightarrow>
               1 / 2 \<le> rng s (rng_pos s) \<and> rng s (rng_pos s) < 3 / 4)
          \<and> (direction (tickClient s) = Right \<longleftrightarrow> 3 / 4 \<le> rng s (rng_pos s))
          \<and> \<bar>rotation (tickClient s) - rotMap (direction (tickClient s))\<bar> \<le> 1 / 4"
    if c: "dirChangeCountdown s \<le> 1"
  proof -
    note t = tickClient_switch [OF assms(3) assms(4) c]
    have "5 \<le> dirChangeCountdown (tickClient s) \<and> dirChangeCountdown (tickClient s) \<le> 24"
      using floor_draw [OF assms(6), of 20] by (simp add: t(2))
    moreover have "\<bar>rotation (tickClient s) - rotMap (direction (tickClient s))\<bar> \<le> 1 / 4"
      using jitter_bound [OF assms(7)] by (simp add: t(1) t(3))
    moreover have "direction (tickClient s) =
        (if rng s (rng_pos s) < 1 / 4 then Forward else if rng s (rng_pos s) < 1 / 2 then Backward
         else if rng s (rng_pos s) < 3 / 4 then Left else Right)"
      using randomItem_DIRECTIONS [OF assms(5)] by (simp add: t(1))
    ultimately show ?thesis
      by (auto simp: DIRECTIONS_def)
  qed
  from spawn dir0 switch tickClient_hold [OF assms(3) assms(4)] show ?thesis
    by blast
qed

lemma late_bot_state:
  "cs_conn late_bot = Some 1 \<and> registered late_bot \<and> dirChangeCountdown late_bot = 1
   \<and> rng late_bot = late_draws \<and> rng_pos late_bot = 5 \<and> intervals late_bot = [2]"
  by (simp add: late_bot_def bot_run_def spawnClient_def late_draws_def bot_onConnect_def
      bot_onApplied_def setInterval_def bot_emit_def tickClient_def advance_def Let_def)

lemma started_bot_state:
  "cs_conn started_bot = Some 1 \<and> registered started_bot \<and> dirChangeCountdown started_bot = 3
   \<and> rng started_bot = late_draws "
  by (simp add: started_bot_def bot_run_def spawnClient_def late_draws_def bot_onConnect_def
      bot_onApplied_def setInterval_def bot_emit_def Let_def)

text \<open>
  A bot with draws of 19/20 redraws its countdown to 24 and turns right; a bot that has
  just started holds its direction.
\<close>

theorem hold_durations_witness:
  "Math_random_ok (late_draws 1) \<and> Math_random_ok (late_draws 2)
   \<and> dirChangeCountdown (spawnClient 1 late_draws) = 3
   \<and> cs_conn late_bot \<noteq> None \<and> registered late_bot \<and> dirChangeCountdown late_bot \<le> 1
   \<and> dirChangeCountdown (tickClient late_bot) = 24
   \<and> direction (tickClient late_bot) = Right
   \<and> \<bar>rotation (tickClient late_bot) - rotMap Right\<bar> \<le> 1 / 4
   \<and> 1 < dirChangeCountdown started_bot
   \<and> dirChangeCountdown (tickClient started_bot) = 2"
proof -
  have ok: "Math_random_ok (late_draws n)" for n
    by (simp add: late_draws_def Math_random_ok_def)
  have c0: "dirChangeCountdown (spawnClient 1 late_draws) = 3"
    by (simp add: spawnClient_def late_draws_def)
  have l: "cs_conn late_bot \<noteq> None" "registered late_bot" "dirChangeCountdown late_bot \<le> 1"
    "rng late_bot = late_draws" "rng_pos late_bot = 5"
    using late_bot_state by simp_all
  have st: "cs_conn started_bot \<noteq> None" "registered started_bot" "1 < dirChangeCountdown started_bot"
    "dirChangeCountdown started_bot = 3" "rng started_bot = late_draws"
    using started_bot_state by simp_all
  have c24: "dirChangeCountdown (tickClient late_bot) = 24"
    using tickClient_switch(2) [OF l(1) l(2) l(3)] by (simp add: l late_draws_def)
  have okl: "Math_random_ok (rng late_bot k)" for k
    by (simp add: l ok)
  note h1 = hold_durations [where g = late_draws and s = late_bot and clientId = 1,
      OF ok ok l(1) l(2) okl okl okl]
  have oks: "Math_random_ok (rng started_bot k)" for k
    by (simp add: st ok)
  note h2 = hold_durations [where g = late_draws and s = started_bot and clientId = 1,
      OF ok ok st(1) st(2) oks oks oks]
  from h1 l(3) have d: "direction (tickClient late_bot) = Right"
    by (simp add: l late_draws_def)
  from h1 l(3) have "\<bar>rotation (tickClient late_bot) - rotMap (direction (tickClient late_bot))\<bar> \<le> 1 / 4"
    by blast
  then have r: "\<bar>rotation (tickClient late_bot) - rotMap Right\<bar> \<le> 1 / 4"
    unfolding d .
  from h2 st(3) have "dirChangeCountdown (tickClient started_bot) = 2"
    by (simp add: st)
  with d r show ?thesis
    using ok c0 l st c24 by blast
qed

text \<open>
  C8 as stated fails: a bot whose countdown has run down to 1 draws 19/20 on its next tick
  and sets the countdown to 24, outside the range 3 to 23.
\<close>

theorem hold_durations_counterexample:
  "dirChangeCountdown late_bot = 1 \<and> dirChangeCountdown (bot_step late_bot BTick) = 24"
  using late_bot_state
  by (simp add: tickClient_def switchDirection_def Let_def draw_def advance_def bot_emit_def
      late_draws_def)

end
